theory Spec2Isabelle
  imports Complex_Main
begin

section \<open>Numbers\<close>

text \<open>
  The program computes with Python floats. They are modelled as the real numbers:
  \<open>+\<close>, \<open>-\<close>, \<open>*\<close>, \<open>/\<close>, \<open>abs\<close>, \<open>min\<close>, \<open>max\<close> and the comparisons are exact, and the
  literals \<open>0.6\<close>, \<open>0.05\<close>, \<open>0.95\<close>, ... denote the decimal fractions written in the source.
  Binary rounding error, infinities and NaN are outside the model.

  \<open>round(x, n)\<close> rounds to \<open>n\<close> decimals, a tie going to the even neighbour.
  \<open>int(x)\<close> truncates towards zero.
\<close>

definition round_half_even :: "real \<Rightarrow> int" where
  "round_half_even x =
     (let f = \<lfloor>x\<rfloor>; d = x - of_int f
      in if d < 1/2 then f
         else if d > 1/2 then f + 1
         else if even f then f else f + 1)"

definition py_round :: "real \<Rightarrow> nat \<Rightarrow> real" where
  "py_round x n = of_int (round_half_even (x * 10 ^ n)) / 10 ^ n"

definition py_int :: "real \<Rightarrow> int" where
  "py_int x = (if 0 \<le> x then \<lfloor>x\<rfloor> else \<lceil>x\<rceil>)"

section \<open>Text\<close>

text \<open>
  A Python \<open>str\<close> is modelled as the list of the bytes of its UTF-8 encoding. The letters
  and signs outside ASCII that the source's literals use are named here.
\<close>

definition a_acute :: string where "a_acute = [CHR 0xC3, CHR 0xA1]"
definition i_acute :: string where "i_acute = [CHR 0xC3, CHR 0xAD]"
definition o_acute :: string where "o_acute = [CHR 0xC3, CHR 0xB3]"
definition u_acute :: string where "u_acute = [CHR 0xC3, CHR 0xBA]"
definition A_acute :: string where "A_acute = [CHR 0xC3, CHR 0x81]"
definition sheaf_emoji :: string where "sheaf_emoji = [CHR 0xF0, CHR 0x9F, CHR 0x8C, CHR 0xBE]"
definition warning_sign :: string where "warning_sign = [CHR 0xE2, CHR 0x9A, CHR 0xA0]"
definition variation_selector :: string where "variation_selector = [CHR 0xEF, CHR 0xB8, CHR 0x8F]"

text \<open>\<open>str(n)\<close> of an integer: its decimal digits, with a minus sign when negative.\<close>

definition digit_char :: "nat \<Rightarrow> char" where
  "digit_char d = ''0123456789'' ! d"

fun show_nat :: "nat \<Rightarrow> string" where
  "show_nat n = (if n < 10 then [digit_char n] else show_nat (n div 10) @ [digit_char (n mod 10)])"

declare show_nat.simps [simp del]

definition show_int :: "int \<Rightarrow> string" where
  "show_int i = (if i < 0 then CHR ''-'' # show_nat (nat (- i)) else show_nat (nat i))"

section \<open>Dictionaries of numbers\<close>

text \<open>
  \<open>satellite_data\<close> and \<open>location\<close> are dictionaries from field names to numbers;
  \<open>d.get(k, default)\<close> reads a field that may be absent.
\<close>

type_synonym numdict = "string \<rightharpoonup> real"

definition dict_get :: "numdict \<Rightarrow> string \<Rightarrow> real \<Rightarrow> real" where
  "dict_get d k dflt = (case d k of None \<Rightarrow> dflt | Some v \<Rightarrow> v)"

section \<open>BloomDetector: the scorer (bloom\_detector.py)\<close>

definition bloom_threshold_ndvi :: real where "bloom_threshold_ndvi = 0.6"
definition bloom_threshold_evi :: real where "bloom_threshold_evi = 0.65"
definition growth_rate_threshold :: real where "growth_rate_threshold = 0.05"

text \<open>\<open>_calculate_bloom_level\<close> (lines 47-58).\<close>

definition calculate_bloom_level :: "real \<Rightarrow> real \<Rightarrow> real \<Rightarrow> real \<Rightarrow> real" where
  "calculate_bloom_level ndvi evi temp precip =
     (let veg_factor = ((ndvi + evi) / 2) * 40;
          temp_optimal = 20;
          temp_deviation = \<bar>temp - temp_optimal\<bar>;
          temp_factor = max 0 ((10 - temp_deviation) / 10) * 30;
          precip_factor = (if precip > 0 then min (precip / 15) 1 * 30 else 5);
          bloom_level = veg_factor + temp_factor + precip_factor
      in py_round (min bloom_level 100) 1)"

text \<open>
  The dictionary \<open>analyze_bloom\<close> returns. Its \<open>message\<close> entry, a display text that
  \<open>_get_status_message\<close> formats from the status and the float \<open>level\<close>, is not part of
  the record: printing a float is outside the model of numbers above.
\<close>

record bloom_assessment =
  ba_status :: string
  ba_level :: real
  ba_confidence :: real
  ba_color :: string
  ba_ndvi :: real
  ba_evi :: real

text \<open>
  The \<open>if\<close>/\<open>elif\<close> chain of \<open>analyze_bloom\<close> (lines 20-35): status, confidence before
  the cap, and colour of a bloom level.
\<close>

definition bloom_band :: "real \<Rightarrow> string \<times> real \<times> string" where
  "bloom_band bloom_level =
     (if bloom_level \<ge> 70 then (''peak_bloom'', 0.85 + (bloom_level - 70) / 100, ''#00ff00'')
      else if bloom_level \<ge> 50 then (''active_bloom'', 0.70 + (bloom_level - 50) / 100, ''#90ee90'')
      else if bloom_level \<ge> 30 then (''early_bloom'', 0.55 + (bloom_level - 30) / 100, ''#ffff00'')
      else (''no_bloom'', 0.40 + bloom_level / 100, ''#808080''))"

definition analyze_bloom :: "numdict \<Rightarrow> bloom_assessment" where
  "analyze_bloom satellite_data =
     (let ndvi = dict_get satellite_data ''ndvi'' 0;
          evi = dict_get satellite_data ''evi'' 0;
          temp = dict_get satellite_data ''temperature'' 20;
          precip = dict_get satellite_data ''precipitation'' 0;
          bloom_level = calculate_bloom_level ndvi evi temp precip;
          (status, confidence, color) = bloom_band bloom_level
      in \<lparr>ba_status = status,
          ba_level = bloom_level,
          ba_confidence = py_round (min confidence 0.95) 2,
          ba_color = color,
          ba_ndvi = ndvi,
          ba_evi = evi\<rparr>)"

section \<open>BloomDetector: the species classifier\<close>

record species_inference =
  si_ecosystem_type :: string
  si_species_hints :: "string list"
  si_ecological_notes :: "string list"
  si_biodiversity_potential :: string
  si_confidence :: string
  si_conservation_priority :: string

text \<open>\<open>_calculate_biodiversity_potential\<close> (lines 199-217).\<close>

definition calculate_biodiversity_potential :: "real \<Rightarrow> real \<Rightarrow> real \<Rightarrow> real \<Rightarrow> string" where
  "calculate_biodiversity_potential ndvi evi temp precip =
     (let veg_score = (ndvi + evi) / 2 * 50;
          temp_score = (if 15 < temp \<and> temp < 28 then 30 else 15);
          precip_score = (if precip > 5 then 20 else 10);
          total_score = veg_score + temp_score + precip_score
      in if total_score > 80 then ''Muy Alto - Ecosistema rico''
         else if total_score > 60 then ''Alto - Biodiversidad significativa''
         else if total_score > 40 then ''Moderado - Biodiversidad est'' @ a_acute @ ''ndar''
         else ''Bajo - Ecosistema limitado'')"

text \<open>
  The rules of \<open>identify_species_type\<close> append to two lists. Each rule is a function from
  the pair \<open>(species_hints, ecological_notes)\<close> to the pair after it; the rules run in
  the order of the source.
\<close>

type_synonym hints_notes = "string list \<times> string list"

definition add_hint :: "string \<Rightarrow> hints_notes \<Rightarrow> hints_notes" where
  "add_hint h acc = (fst acc @ [h], snd acc)"

definition add_note :: "string \<Rightarrow> hints_notes \<Rightarrow> hints_notes" where
  "add_note n acc = (fst acc, snd acc @ [n])"

text \<open>Lines 140-164: the climate zone, chosen by latitude, and its rules.\<close>

definition climate_zone_rules :: "real \<Rightarrow> real \<Rightarrow> real \<Rightarrow> real \<Rightarrow> hints_notes \<Rightarrow> string \<times> hints_notes" where
  "climate_zone_rules lat ndvi temp precip acc0 =
     (if -23.5 \<le> lat \<and> lat \<le> 23.5 then
        (let acc1 = (if ndvi > 0.7
                     then add_note ''Alta biodiversidad esperada''
                            (add_hint ''Selva tropical densa'' acc0)
                     else acc0);
             acc2 = (if temp > 25 \<and> precip > 10
                     then add_note (''Per'' @ i_acute @ ''odo '' @ o_acute @ ''ptimo para polinizadores'')
                            (add_hint (''Flores tropicales: Orqu'' @ i_acute @ ''deas, Heliconias, Jengibre'') acc1)
                     else acc1)
         in (''Tropical'', acc2))
      else if 23.5 < \<bar>lat\<bar> \<and> \<bar>lat\<bar> \<le> 66.5 then
        (let acc1 = (if 15 < temp \<and> temp < 25 \<and> ndvi > 0.5
                     then add_note (''Momento cr'' @ i_acute @ ''tico para control de plagas'')
                            (add_hint ''Posibles especies: Cerezos, Manzanos, Duraznos''
                              (add_hint (A_acute @ ''rboles frutales en floraci'' @ o_acute @ ''n'') acc0))
                     else acc0);
             acc2 = (if ndvi > 0.6 \<and> 10 < temp \<and> temp < 20
                     then add_note ''Importante para polinizadores nativos''
                            (add_hint ''Flores silvestres de primavera'' acc1)
                     else acc1)
         in (''Templado'', acc2))
      else
        (let acc1 = (if ndvi > 0.3
                     then add_note (''Ventana corta de floraci'' @ o_acute @ ''n - sensible a cambio clim'' @ a_acute @ ''tico'')
                            (add_hint ''Tundra floreciente o bosque boreal'' acc0)
                     else acc0)
         in (''Boreal/Polar'', acc1)))"

text \<open>Lines 167-173: the agricultural pattern.\<close>

definition agricultural_rule :: "real \<Rightarrow> real \<Rightarrow> real \<Rightarrow> hints_notes \<Rightarrow> hints_notes" where
  "agricultural_rule ndvi evi temp acc0 =
     (if 0.4 < ndvi \<and> ndvi < 0.7 \<and> 0.5 < evi \<and> evi < 0.8 then
        (let acc1 = add_hint (sheaf_emoji @ '' Patr'' @ o_acute @ ''n agr'' @ i_acute @ ''cola detectado'') acc0
         in if temp > 20
            then add_note (''Fase pre-floraci'' @ o_acute @ ''n cr'' @ i_acute @ ''tica para aplicaci'' @ o_acute @ ''n de fertilizantes'')
                   (add_hint (''Cultivos posibles: Algod'' @ o_acute @ ''n, Girasoles, Canola'') acc1)
            else add_hint (''Cultivos de clima fr'' @ i_acute @ ''o: Trigo, Cebada'') acc1)
      else acc0)"

text \<open>Lines 176-179: the invasive-species alert.\<close>

definition invasive_rule :: "real \<Rightarrow> real \<Rightarrow> hints_notes \<Rightarrow> hints_notes" where
  "invasive_rule ndvi temp acc0 =
     (if ndvi > 0.75 \<and> temp < 10
      then add_note (''Requiere inspecci'' @ o_acute @ ''n de campo urgente'')
             (add_note (''Floraci'' @ o_acute @ ''n an'' @ o_acute @ ''mala fuera de temporada normal'')
               (add_hint (warning_sign @ variation_selector @ '' ALERTA: Posible especie invasora'') acc0))
      else acc0)"

text \<open>Lines 182-185: degraded vegetation.\<close>

definition degradation_rule :: "real \<Rightarrow> hints_notes \<Rightarrow> hints_notes" where
  "degradation_rule ndvi acc0 =
     (if ndvi < 0.25
      then add_note (A_acute @ ''rea prioritaria para restauraci'' @ o_acute @ ''n'')
             (add_note (warning_sign @ variation_selector @ '' Posible desertificaci'' @ o_acute @ ''n o sobreexplotaci'' @ o_acute @ ''n'')
               (add_hint (''Vegetaci'' @ o_acute @ ''n escasa o degradada'') acc0))
      else acc0)"

definition identify_species_type :: "numdict \<Rightarrow> numdict \<Rightarrow> species_inference" where
  "identify_species_type satellite_data location =
     (let ndvi = dict_get satellite_data ''ndvi'' 0;
          evi = dict_get satellite_data ''evi'' 0;
          temp = dict_get satellite_data ''temperature'' 20;
          precip = dict_get satellite_data ''precipitation'' 0;
          lat = dict_get location ''lat'' 0;
          (ecosystem_type, acc1) = climate_zone_rules lat ndvi temp precip ([], []);
          acc2 = agricultural_rule ndvi evi temp acc1;
          acc3 = invasive_rule ndvi temp acc2;
          (species_hints, ecological_notes) = degradation_rule ndvi acc3;
          biodiversity_score = calculate_biodiversity_potential ndvi evi temp precip
      in \<lparr>si_ecosystem_type = ecosystem_type,
          si_species_hints =
            (if species_hints \<noteq> [] then species_hints else [''Vegetaci'' @ o_acute @ ''n general'']),
          si_ecological_notes =
            (if ecological_notes \<noteq> [] then ecological_notes else [''Condiciones normales'']),
          si_biodiversity_potential = biodiversity_score,
          si_confidence =
            (if length species_hints > 2 then ''Alta''
             else if length species_hints > 0 then ''Media'' else ''Baja''),
          si_conservation_priority = (if ndvi > 0.6 \<or> ndvi < 0.3 then ''Alta'' else ''Media'')\<rparr>)"

section \<open>NASADataFetcher (nasa\_api.py)\<close>

text \<open>\<open>_calculate_simulated_ndvi\<close> (lines 60-69).\<close>

definition calculate_simulated_ndvi :: "real \<Rightarrow> real \<Rightarrow> real" where
  "calculate_simulated_ndvi temp precip =
     (let optimal_temp = 20;
          temp_factor0 = 1 - \<bar>temp - optimal_temp\<bar> / 30;
          temp_factor = max 0 (min 1 temp_factor0);
          precip_factor = (if precip > 0 then min (precip / 10) 1 else 0.3);
          ndvi = (temp_factor * 0.6 + precip_factor * 0.4) * 0.9
      in max 0 (min 0.95 ndvi))"

text \<open>Line 44: \<open>evi = ndvi * 1.2 if ndvi < 0.83 else ndvi\<close>.\<close>

definition derive_evi :: "real \<Rightarrow> real" where
  "derive_evi ndvi = (if ndvi < 0.83 then ndvi * 1.2 else ndvi)"

record climate_sample =
  cs_ndvi :: real
  cs_evi :: real
  cs_temperature :: real
  cs_precipitation :: real
  cs_date :: string

text \<open>
  What the request to the remote service comes to. \<open>Lookup_ok t p\<close> is an answer with
  status 200 whose \<open>T2M\<close> and \<open>PRECTOTCORR\<close> tables hold the values \<open>t\<close> and \<open>p\<close>, in
  order (empty when the table is absent or empty); \<open>Lookup_failed\<close> is any other status
  and any exception raised inside the \<open>try\<close> block.
\<close>

datatype lookup = Lookup_failed | Lookup_ok "real list" "real list"

text \<open>
  The three draws of \<open>random.uniform\<close> that \<open>_get_fallback_data\<close> makes, in the order of
  the source: \<open>uniform(0, 0.3)\<close>, \<open>uniform(-5, 15)\<close> and \<open>uniform(0, 20)\<close>.
\<close>

record draws =
  u_ndvi :: real
  u_temp :: real
  u_precip :: real

text \<open>\<open>_get_fallback_data\<close> (lines 71-82); \<open>today\<close> is \<open>datetime.now()\<close> as \<open>%Y%m%d\<close>.\<close>

definition get_fallback_data :: "draws \<Rightarrow> string \<Rightarrow> real \<Rightarrow> real \<Rightarrow> climate_sample" where
  "get_fallback_data u today lat lon =
     (let season_factor = \<bar>lat\<bar> / 90;
          base_ndvi = 0.4 + u_ndvi u * (1 - season_factor)
      in \<lparr>cs_ndvi = py_round base_ndvi 3,
          cs_evi = py_round (base_ndvi * 1.15) 3,
          cs_temperature = 15 + u_temp u,
          cs_precipitation = u_precip u,
          cs_date = today\<rparr>)"

text \<open>\<open>get_vegetation_index\<close> (lines 14-58), for a date that is given.\<close>

definition get_vegetation_index :: "lookup \<Rightarrow> draws \<Rightarrow> string \<Rightarrow> real \<Rightarrow> real \<Rightarrow> string \<Rightarrow> climate_sample" where
  "get_vegetation_index response u today lat lon date =
     (case response of
        Lookup_ok temp precip \<Rightarrow>
          (let temp_val = (case temp of [] \<Rightarrow> 20 | v # _ \<Rightarrow> v);
               precip_val = (case precip of [] \<Rightarrow> 0 | v # _ \<Rightarrow> v);
               ndvi = calculate_simulated_ndvi temp_val precip_val;
               evi = derive_evi ndvi
           in \<lparr>cs_ndvi = py_round ndvi 3,
               cs_evi = py_round evi 3,
               cs_temperature = temp_val,
               cs_precipitation = precip_val,
               cs_date = date\<rparr>)
      | Lookup_failed \<Rightarrow> get_fallback_data u today lat lon)"

section \<open>Dates (the \<open>datetime\<close> library)\<close>

text \<open>
  \<open>predict_bloom_date\<close> reads dates with \<open>datetime.strptime(s, '%Y%m%d')\<close>, subtracts
  them, adds a \<open>timedelta\<close> of whole days and prints with \<open>strftime('%Y-%m-%d')\<close>. The
  time of day is midnight throughout, so a \<open>datetime\<close> is modelled by its calendar date.
  The functions below follow the library's own Python implementation of the proleptic
  Gregorian calendar: day 1 is 0001-01-01, the last day is 9999-12-31.
\<close>

datatype error = ValueError | OverflowError

datatype date = Date nat nat nat

definition is_leap :: "nat \<Rightarrow> bool" where
  "is_leap y = (y mod 4 = 0 \<and> (y mod 100 \<noteq> 0 \<or> y mod 400 = 0))"

text \<open>
  The two tables are indexed by the month, from 1; entry 0 is a placeholder that is
  never read (\<open>-1\<close> in the library).
\<close>

definition DAYS_IN_MONTH :: "nat list" where
  "DAYS_IN_MONTH = [0, 31, 28, 31, 30, 31, 30, 31, 31, 30, 31, 30, 31]"

definition DAYS_BEFORE_MONTH :: "nat list" where
  "DAYS_BEFORE_MONTH = [0, 0, 31, 59, 90, 120, 151, 181, 212, 243, 273, 304, 334]"

definition days_before_year :: "nat \<Rightarrow> int" where
  "days_before_year year = (let y = int year - 1 in y * 365 + y div 4 - y div 100 + y div 400)"

definition days_in_month :: "nat \<Rightarrow> nat \<Rightarrow> nat" where
  "days_in_month year month = (if month = 2 \<and> is_leap year then 29 else DAYS_IN_MONTH ! month)"

definition days_before_month :: "nat \<Rightarrow> nat \<Rightarrow> nat" where
  "days_before_month year month =
     DAYS_BEFORE_MONTH ! month + (if month > 2 \<and> is_leap year then 1 else 0)"

definition ymd2ord :: "date \<Rightarrow> int" where
  "ymd2ord dt = (case dt of Date year month day \<Rightarrow>
     days_before_year year + int (days_before_month year month) + int day)"

definition MAXORDINAL :: int where
  "MAXORDINAL = 3652059"

definition ord2ymd :: "int \<Rightarrow> date" where
  "ord2ymd n0 =
     (let n = n0 - 1;
          n400 = n div 146097; n = n mod 146097;
          n100 = n div 36524; n = n mod 36524;
          n4 = n div 1461; n = n mod 1461;
          n1 = n div 365; n = n mod 365;
          year = n400 * 400 + 1 + n100 * 100 + n4 * 4 + n1
      in if n1 = 4 \<or> n100 = 4 then Date (nat (year - 1)) 12 31
         else
           (let leapyear = (n1 = 3 \<and> (n4 \<noteq> 24 \<or> n100 = 3));
                month = nat ((n + 50) div 32);
                preceding = int (DAYS_BEFORE_MONTH ! month) + (if month > 2 \<and> leapyear then 1 else 0)
            in if preceding > n
               then (let month' = month - 1;
                         preceding' = preceding - (int (DAYS_IN_MONTH ! month') + (if month' = 2 \<and> leapyear then 1 else 0))
                     in Date (nat year) month' (nat (n - preceding' + 1)))
               else Date (nat year) month (nat (n - preceding + 1))))"

text \<open>
  \<open>strptime\<close> turns the format into the regular expression
  \<open>(\d\d\d\d)(1[0-2]|0[1-9]|[1-9])(3[0-1]|[1-2]\d|0[1-9]|[1-9]| [1-9])\<close>, matches it at
  the start of the text, the alternatives tried from left to right, and refuses text
  that the match leaves over. Each matcher below returns the ways its group can match a
  prefix, in the order the expression tries them, each with the number read and the
  rest of the text. A digit is an ASCII digit.
\<close>

definition char_in :: "char \<Rightarrow> char \<Rightarrow> char \<Rightarrow> bool" where
  "char_in lo hi c = ((of_char lo :: nat) \<le> of_char c \<and> (of_char c :: nat) \<le> of_char hi)"

definition digit_val :: "char \<Rightarrow> nat" where
  "digit_val c = of_char c - 48"

fun two_chars :: "(char \<Rightarrow> bool) \<Rightarrow> (char \<Rightarrow> bool) \<Rightarrow> string \<Rightarrow> (nat \<times> string) list" where
  "two_chars p q (a # b # rest) = (if p a \<and> q b then [(10 * digit_val a + digit_val b, rest)] else [])"
| "two_chars p q _ = []"

fun one_char :: "(char \<Rightarrow> bool) \<Rightarrow> string \<Rightarrow> (nat \<times> string) list" where
  "one_char p (a # rest) = (if p a then [(digit_val a, rest)] else [])"
| "one_char p _ = []"

fun space_char :: "(char \<Rightarrow> bool) \<Rightarrow> string \<Rightarrow> (nat \<times> string) list" where
  "space_char p (a # b # rest) = (if a = CHR '' '' \<and> p b then [(digit_val b, rest)] else [])"
| "space_char p _ = []"

fun match_Y :: "string \<Rightarrow> (nat \<times> string) list" where
  "match_Y (a # b # c # d # rest) =
     (if char_in CHR ''0'' CHR ''9'' a \<and> char_in CHR ''0'' CHR ''9'' b \<and>
         char_in CHR ''0'' CHR ''9'' c \<and> char_in CHR ''0'' CHR ''9'' d
      then [(1000 * digit_val a + 100 * digit_val b + 10 * digit_val c + digit_val d, rest)]
      else [])"
| "match_Y _ = []"

definition match_m :: "string \<Rightarrow> (nat \<times> string) list" where
  "match_m s =
     two_chars (char_in CHR ''1'' CHR ''1'') (char_in CHR ''0'' CHR ''2'') s @
     two_chars (char_in CHR ''0'' CHR ''0'') (char_in CHR ''1'' CHR ''9'') s @
     one_char (char_in CHR ''1'' CHR ''9'') s"

definition match_d :: "string \<Rightarrow> (nat \<times> string) list" where
  "match_d s =
     two_chars (char_in CHR ''3'' CHR ''3'') (char_in CHR ''0'' CHR ''1'') s @
     two_chars (char_in CHR ''1'' CHR ''2'') (char_in CHR ''0'' CHR ''9'') s @
     two_chars (char_in CHR ''0'' CHR ''0'') (char_in CHR ''1'' CHR ''9'') s @
     one_char (char_in CHR ''1'' CHR ''9'') s @
     space_char (char_in CHR ''1'' CHR ''9'') s"

definition match_Ymd :: "string \<Rightarrow> (nat \<times> nat \<times> nat \<times> string) list" where
  "match_Ymd s =
     concat (map (\<lambda>(y, r1).
       concat (map (\<lambda>(m, r2).
         map (\<lambda>(d, r3). (y, m, d, r3)) (match_d r2)) (match_m r1))) (match_Y s))"

definition strptime :: "string \<Rightarrow> error + date" where
  "strptime s =
     (case match_Ymd s of
        [] \<Rightarrow> Inl ValueError
      | (year, month, day, rest) # _ \<Rightarrow>
          if rest \<noteq> [] then Inl ValueError
          else if year < 1 \<or> day > days_in_month year month then Inl ValueError
          else Inr (Date year month day))"

text \<open>
  \<open>dt + timedelta(days=n)\<close> raises \<open>OverflowError\<close> when the day is outside the calendar.
\<close>

definition add_days :: "date \<Rightarrow> int \<Rightarrow> error + date" where
  "add_days dt n =
     (let ordinal = ymd2ord dt + n
      in if 0 < ordinal \<and> ordinal \<le> MAXORDINAL then Inr (ord2ymd ordinal) else Inl OverflowError)"

text \<open>
  \<open>strftime('%Y-%m-%d')\<close>: the year on four digits, month and day on two. (For a year
  below 1000 some platforms print the year without leading zeros.)
\<close>

definition zfill :: "nat \<Rightarrow> string \<Rightarrow> string" where
  "zfill w s = replicate (w - length s) CHR ''0'' @ s"

definition strftime :: "date \<Rightarrow> string" where
  "strftime dt = (case dt of Date year month day \<Rightarrow>
     zfill 4 (show_nat year) @ ''-'' @ zfill 2 (show_nat month) @ ''-'' @ zfill 2 (show_nat day))"

section \<open>BloomDetector: the predictor\<close>

text \<open>
  An entry of the historical series, as \<open>get_historical_data\<close> builds it: a dictionary
  with the keys \<open>date\<close>, \<open>ndvi\<close> and \<open>evi\<close>.
\<close>

record entry =
  e_date :: string
  e_ndvi :: real
  e_evi :: real

text \<open>
  The dictionary \<open>predict_bloom_date\<close> returns; \<open>p_historical_blooms\<close> is \<open>None\<close> where
  the dictionary has no such key.
\<close>

record prediction =
  p_date :: string
  p_probability :: real
  p_peak_period :: string
  p_historical_blooms :: "nat option"

text \<open>The loop of lines 79-86 over the consecutive pairs \<open>(curr, next_data)\<close>; \<open>curr'\<close> stands for \<open>curr\<close>.\<close>

fun bloom_dates_loop :: "entry list \<Rightarrow> string list" where
  "bloom_dates_loop (curr' # next_data # rest) =
     (if e_ndvi next_data > bloom_threshold_ndvi \<and>
         e_ndvi next_data - e_ndvi curr' > growth_rate_threshold
      then e_date curr' # bloom_dates_loop (next_data # rest)
      else bloom_dates_loop (next_data # rest))"
| "bloom_dates_loop _ = []"

text \<open>The loop of lines 115-119 over the consecutive pairs of dates.\<close>

fun intervals_loop :: "string list \<Rightarrow> error + int list" where
  "intervals_loop (s1 # s2 # rest) =
     (case strptime s1 of Inl e \<Rightarrow> Inl e | Inr date1 \<Rightarrow>
      case strptime s2 of Inl e \<Rightarrow> Inl e | Inr date2 \<Rightarrow>
      case intervals_loop (s2 # rest) of Inl e \<Rightarrow> Inl e | Inr intervals \<Rightarrow>
        Inr ((ymd2ord date2 - ymd2ord date1) # intervals))"
| "intervals_loop _ = Inr []"

text \<open>\<open>_calculate_average_interval\<close> (lines 110-121).\<close>

definition calculate_average_interval :: "string list \<Rightarrow> error + int" where
  "calculate_average_interval dates =
     (if length dates < 2 then Inr 90
      else case intervals_loop dates of Inl e \<Rightarrow> Inl e | Inr intervals \<Rightarrow>
        Inr (py_int (of_int (sum_list intervals) / of_nat (length intervals))))"

text \<open>\<open>predict_bloom_date\<close> (lines 70-108).\<close>

definition predict_bloom_date :: "entry list \<Rightarrow> error + prediction" where
  "predict_bloom_date historical_data =
     (if length historical_data < 14 then
        Inr \<lparr>p_date = ''Datos insuficientes'', p_probability = 0, p_peak_period = ''N/A'',
             p_historical_blooms = None\<rparr>
      else
        (let bloom_dates = bloom_dates_loop historical_data
         in if bloom_dates = [] then
              Inr \<lparr>p_date = ''No hay patr'' @ o_acute @ ''n hist'' @ o_acute @ ''rico'',
                   p_probability = 0.3, p_peak_period = ''Variable'',
                   p_historical_blooms = None\<rparr>
            else
              (case calculate_average_interval bloom_dates of Inl e \<Rightarrow> Inl e | Inr avg_interval \<Rightarrow>
               case strptime (last bloom_dates) of Inl e \<Rightarrow> Inl e | Inr last_bloom_date \<Rightarrow>
               case add_days last_bloom_date avg_interval of Inl e \<Rightarrow> Inl e | Inr predicted_date \<Rightarrow>
                 (let probability = min 0.95 (0.6 + of_nat (length bloom_dates) * 0.05)
                  in Inr \<lparr>p_date = strftime predicted_date,
                          p_probability = py_round probability 2,
                          p_peak_period = show_int avg_interval @ '' d'' @ i_acute @ ''as desde ''
                                            @ u_acute @ ''ltima floraci'' @ o_acute @ ''n'',
                          p_historical_blooms = Some (length bloom_dates)\<rparr>))))"

section \<open>The specification's formulas\<close>

text \<open>
  The definitions of this section are written from the words of the specification, not
  from the code; the theorems below compare the code with them.
\<close>

definition clamp :: "real \<Rightarrow> real \<Rightarrow> real \<Rightarrow> real" where
  "clamp lo hi x = max lo (min hi x)"



text \<open>A sample with every field the scorer reads filled in, an absent one by its default.\<close>

definition with_defaults :: "numdict \<Rightarrow> numdict" where
  "with_defaults s =
     [''ndvi'' \<mapsto> 0, ''evi'' \<mapsto> 0, ''temperature'' \<mapsto> 20, ''precipitation'' \<mapsto> 0] ++ s"

text \<open>
  Specification 4.1: \<open>ndvi = clamp(0, 0.95, (tempFactor*0.6 + precipFactor*0.4) * 0.9)\<close>
  with \<open>tempFactor = clamp(0,1, 1 - |temp-20|/30)\<close> and
  \<open>precipFactor = precip>0 ? min(precip/10,1) : 0.3\<close>.
\<close>

definition spec_ndvi :: "real \<Rightarrow> real \<Rightarrow> real" where
  "spec_ndvi temp precip =
     (let tempFactor = clamp 0 1 (1 - \<bar>temp - 20\<bar> / 30);
          precipFactor = (if precip > 0 then min (precip / 10) 1 else 0.3)
      in clamp 0 0.95 ((tempFactor * 0.6 + precipFactor * 0.4) * 0.9))"

text \<open>
  Specification 4.3: a pair \<open>(curr, next)\<close> of consecutive entries is a bloom transition
  when \<open>next.ndvi > 0.6\<close> and \<open>next.ndvi - curr.ndvi > 0.05\<close>; the transition dates are the
  \<open>curr.date\<close> of the transitions, in series order.
\<close>

definition is_transition :: "entry \<Rightarrow> entry \<Rightarrow> bool" where
  "is_transition c n = (e_ndvi n > 0.6 \<and> e_ndvi n - e_ndvi c > 0.05)"

definition transition_dates :: "entry list \<Rightarrow> string list" where
  "transition_dates h =
     map (\<lambda>(c, n). e_date c) (filter (\<lambda>(c, n). is_transition c n) (zip h (tl h)))"






text \<open>
  Series for the witnesses and counterexamples. \<open>series_single_transition\<close> is the series
  of the specification's section 8: the entries \<open>(0.5, 20240101)\<close>, \<open>(0.7, 20240108)\<close> and
  12 more entries without a transition.
\<close>

definition mk_series :: "(string \<times> real) list \<Rightarrow> entry list" where
  "mk_series xs = map (\<lambda>(d, n). \<lparr>e_date = d, e_ndvi = n, e_evi = n\<rparr>) xs"




definition series_malformed_dates :: "entry list" where
  "series_malformed_dates = mk_series
     [(''20240101'', 0.5), (''not a date'', 0.7), ([], 0.9), (''20240122'', 0.2),
      (''20240129'', 0.7), (''20240205'', 0.7), (''20240212'', 0.7), (''20240219'', 0.7),
      (''20240226'', 0.7), (''20240304'', 0.7), (''20240311'', 0.7), (''20240318'', 0.7),
      (''20240325'', 0.7), (''20240401'', 0.7)]"

definition series_too_short :: "entry list" where
  "series_too_short = take 13 series_malformed_dates"

section \<open>Rounding\<close>

lemma rhe_floor_le: "\<lfloor>x\<rfloor> \<le> round_half_even x"
  by (simp add: round_half_even_def Let_def)

lemma rhe_le_ceiling: "round_half_even x \<le> \<lceil>x\<rceil>"
proof (cases "x = of_int \<lfloor>x\<rfloor>")
  case True
  then have "round_half_even x = \<lfloor>x\<rfloor>" by (simp add: round_half_even_def Let_def)
  then show ?thesis by (simp add: floor_le_ceiling)
next
  case False
  then have "\<lceil>x\<rceil> = \<lfloor>x\<rfloor> + 1" by (simp add: ceiling_altdef)
  then show ?thesis by (simp add: round_half_even_def Let_def)
qed

lemma rhe_ge: "of_int k \<le> x \<Longrightarrow> k \<le> round_half_even x"
proof -
  assume "of_int k \<le> x"
  then have "k \<le> \<lfloor>x\<rfloor>" by (simp add: le_floor_iff)
  with rhe_floor_le [of x] show ?thesis by linarith
qed

lemma rhe_le: "x \<le> of_int k \<Longrightarrow> round_half_even x \<le> k"
proof -
  assume "x \<le> of_int k"
  then have "\<lceil>x\<rceil> \<le> k" by (simp add: ceiling_le_iff)
  with rhe_le_ceiling [of x] show ?thesis by linarith
qed

lemma rhe_mono: "x \<le> y \<Longrightarrow> round_half_even x \<le> round_half_even y"
proof -
  assume xy: "x \<le> y"
  then have fl: "\<lfloor>x\<rfloor> \<le> \<lfloor>y\<rfloor>" by (rule floor_mono)
  show ?thesis
  proof (cases "\<lfloor>x\<rfloor> = \<lfloor>y\<rfloor>")
    case True
    with xy show ?thesis by (auto simp: round_half_even_def Let_def)
  next
    case False
    with fl have "\<lfloor>x\<rfloor> + 1 \<le> \<lfloor>y\<rfloor>" by linarith
    moreover have "round_half_even x \<le> \<lfloor>x\<rfloor> + 1" by (simp add: round_half_even_def Let_def)
    ultimately show ?thesis using rhe_floor_le [of y] by linarith
  qed
qed

lemma py_round_mono: "x \<le> y \<Longrightarrow> py_round x n \<le> py_round y n"
  unfolding py_round_def
  by (simp add: divide_le_cancel rhe_mono)

lemma py_round_ge: "of_int k / 10 ^ n \<le> x \<Longrightarrow> of_int k / 10 ^ n \<le> py_round x n"
  unfolding py_round_def
  by (simp add: divide_le_cancel pos_divide_le_eq rhe_ge)

lemma py_round_le: "x \<le> of_int k / 10 ^ n \<Longrightarrow> py_round x n \<le> of_int k / 10 ^ n"
  unfolding py_round_def
  by (simp add: divide_le_cancel pos_le_divide_eq rhe_le)

lemma py_round_nonneg: "0 \<le> x \<Longrightarrow> 0 \<le> py_round x n"
  using py_round_ge [of 0 n x] by simp



section \<open>The scorer\<close>

lemma ba_level_eq:
  "ba_level (analyze_bloom s) =
     calculate_bloom_level (dict_get s ''ndvi'' 0) (dict_get s ''evi'' 0)
       (dict_get s ''temperature'' 20) (dict_get s ''precipitation'' 0)"
  by (simp add: analyze_bloom_def Let_def split: prod.split)

lemma ba_status_eq: "ba_status (analyze_bloom s) = fst (bloom_band (ba_level (analyze_bloom s)))"
  by (simp add: analyze_bloom_def Let_def split: prod.split)






text \<open>
  Claim C2. The status of the assessment is the band of its level, and the bands
  partition the levels: \<open>peak_bloom\<close> exactly from 70 up, \<open>active_bloom\<close> exactly on
  \<open>[50, 70)\<close>, \<open>early_bloom\<close> exactly on \<open>[30, 50)\<close>, \<open>no_bloom\<close> exactly below 30; the
  six levels of the specification fall as it says. The witness reaches each of the six
  levels by a sample.
\<close>

theorem status_bands_partition:
  "ba_status (analyze_bloom s) = fst (bloom_band (ba_level (analyze_bloom s)))
   \<and> (fst (bloom_band l) = ''peak_bloom'' \<longleftrightarrow> 70 \<le> l)
   \<and> (fst (bloom_band l) = ''active_bloom'' \<longleftrightarrow> 50 \<le> l \<and> l < 70)
   \<and> (fst (bloom_band l) = ''early_bloom'' \<longleftrightarrow> 30 \<le> l \<and> l < 50)
   \<and> (fst (bloom_band l) = ''no_bloom'' \<longleftrightarrow> l < 30)
   \<and> fst (bloom_band 29.9) = ''no_bloom''
   \<and> fst (bloom_band 30.0) = ''early_bloom''
   \<and> fst (bloom_band 49.9) = ''early_bloom''
   \<and> fst (bloom_band 50.0) = ''active_bloom''
   \<and> fst (bloom_band 69.9) = ''active_bloom''
   \<and> fst (bloom_band 70.0) = ''peak_bloom''"
proof -
  have bands: "(fst (bloom_band l) = ''peak_bloom'' \<longleftrightarrow> 70 \<le> l)
   \<and> (fst (bloom_band l) = ''active_bloom'' \<longleftrightarrow> 50 \<le> l \<and> l < 70)
   \<and> (fst (bloom_band l) = ''early_bloom'' \<longleftrightarrow> 30 \<le> l \<and> l < 50)
   \<and> (fst (bloom_band l) = ''no_bloom'' \<longleftrightarrow> l < 30)"
    by (simp add: bloom_band_def)
  have points: "fst (bloom_band 29.9) = ''no_bloom''" "fst (bloom_band 30.0) = ''early_bloom''"
    "fst (bloom_band 49.9) = ''early_bloom''" "fst (bloom_band 50.0) = ''active_bloom''"
    "fst (bloom_band 69.9) = ''active_bloom''" "fst (bloom_band 70.0) = ''peak_bloom''"
    by (simp_all add: bloom_band_def)
  show ?thesis using ba_status_eq [of s] bands points by blast
qed


lemma level_of_sample:
  "ba_level (analyze_bloom s) =
     py_round (min ((dict_get s ''ndvi'' 0 + dict_get s ''evi'' 0) / 2 * 40
                    + max 0 ((10 - \<bar>dict_get s ''temperature'' 20 - 20\<bar>) / 10) * 30
                    + (if dict_get s ''precipitation'' 0 > 0
                       then min (dict_get s ''precipitation'' 0 / 15) 1 * 30 else 5)) 100) 1"
  by (simp add: ba_level_eq calculate_bloom_level_def Let_def)

theorem status_bands_partition_witness:
  "ba_level (analyze_bloom [''ndvi'' \<mapsto> 0.6225, ''evi'' \<mapsto> 0.6225, ''temperature'' \<mapsto> 30]) = 29.9
   \<and> ba_status (analyze_bloom [''ndvi'' \<mapsto> 0.6225, ''evi'' \<mapsto> 0.6225, ''temperature'' \<mapsto> 30]) = ''no_bloom''
   \<and> ba_level (analyze_bloom [''ndvi'' \<mapsto> 0.625, ''evi'' \<mapsto> 0.625, ''temperature'' \<mapsto> 30]) = 30.0
   \<and> ba_status (analyze_bloom [''ndvi'' \<mapsto> 0.625, ''evi'' \<mapsto> 0.625, ''temperature'' \<mapsto> 30]) = ''early_bloom''
   \<and> ba_level (analyze_bloom [''ndvi'' \<mapsto> 0.3725, ''evi'' \<mapsto> 0.3725]) = 49.9
   \<and> ba_status (analyze_bloom [''ndvi'' \<mapsto> 0.3725, ''evi'' \<mapsto> 0.3725]) = ''early_bloom''
   \<and> ba_level (analyze_bloom [''ndvi'' \<mapsto> 0.375, ''evi'' \<mapsto> 0.375]) = 50.0
   \<and> ba_status (analyze_bloom [''ndvi'' \<mapsto> 0.375, ''evi'' \<mapsto> 0.375]) = ''active_bloom''
   \<and> ba_level (analyze_bloom [''ndvi'' \<mapsto> 0.2475, ''evi'' \<mapsto> 0.2475, ''precipitation'' \<mapsto> 15]) = 69.9
   \<and> ba_status (analyze_bloom [''ndvi'' \<mapsto> 0.2475, ''evi'' \<mapsto> 0.2475, ''precipitation'' \<mapsto> 15]) = ''active_bloom''
   \<and> ba_level (analyze_bloom [''ndvi'' \<mapsto> 0.25, ''evi'' \<mapsto> 0.25, ''precipitation'' \<mapsto> 15]) = 70.0
   \<and> ba_status (analyze_bloom [''ndvi'' \<mapsto> 0.25, ''evi'' \<mapsto> 0.25, ''precipitation'' \<mapsto> 15]) = ''peak_bloom''"
proof -
  let ?a = "[''ndvi'' \<mapsto> 0.6225, ''evi'' \<mapsto> 0.6225, ''temperature'' \<mapsto> (30::real)]"
  let ?b = "[''ndvi'' \<mapsto> 0.625, ''evi'' \<mapsto> 0.625, ''temperature'' \<mapsto> (30::real)]"
  let ?c = "[''ndvi'' \<mapsto> 0.3725, ''evi'' \<mapsto> (0.3725::real)]"
  let ?d = "[''ndvi'' \<mapsto> 0.375, ''evi'' \<mapsto> (0.375::real)]"
  let ?e = "[''ndvi'' \<mapsto> 0.2475, ''evi'' \<mapsto> 0.2475, ''precipitation'' \<mapsto> (15::real)]"
  let ?f = "[''ndvi'' \<mapsto> 0.25, ''evi'' \<mapsto> 0.25, ''precipitation'' \<mapsto> (15::real)]"
  have la: "ba_level (analyze_bloom ?a) = 29.9"
    by (simp add: level_of_sample dict_get_def py_round_def round_half_even_def Let_def)
  have lb: "ba_level (analyze_bloom ?b) = 30.0"
    by (simp add: level_of_sample dict_get_def py_round_def round_half_even_def Let_def)
  have lc: "ba_level (analyze_bloom ?c) = 49.9"
    by (simp add: level_of_sample dict_get_def py_round_def round_half_even_def Let_def)
  have ld: "ba_level (analyze_bloom ?d) = 50.0"
    by (simp add: level_of_sample dict_get_def py_round_def round_half_even_def Let_def)
  have le: "ba_level (analyze_bloom ?e) = 69.9"
    by (simp add: level_of_sample dict_get_def py_round_def round_half_even_def Let_def)
  have lf: "ba_level (analyze_bloom ?f) = 70.0"
    by (simp add: level_of_sample dict_get_def py_round_def round_half_even_def Let_def)
  have sa: "ba_status (analyze_bloom ?a) = ''no_bloom''"
    using status_bands_partition [of ?a 0] unfolding la by simp
  have sb: "ba_status (analyze_bloom ?b) = ''early_bloom''"
    using status_bands_partition [of ?b 0] unfolding lb by simp
  have sc: "ba_status (analyze_bloom ?c) = ''early_bloom''"
    using status_bands_partition [of ?c 0] unfolding lc by simp
  have sd: "ba_status (analyze_bloom ?d) = ''active_bloom''"
    using status_bands_partition [of ?d 0] unfolding ld by simp
  have se: "ba_status (analyze_bloom ?e) = ''active_bloom''"
    using status_bands_partition [of ?e 0] unfolding le by simp
  have sf: "ba_status (analyze_bloom ?f) = ''peak_bloom''"
    using status_bands_partition [of ?f 0] unfolding lf by simp
  show ?thesis using la lb lc ld le lf sa sb sc sd se sf by blast
qed



text \<open>
  Claim C10. \<open>analyze_bloom\<close> reads an absent field by its default (\<open>ndvi\<close> 0, \<open>evi\<close> 0,
  \<open>temperature\<close> 20, \<open>precipitation\<close> 0): the result on any sample is the result on the
  sample with the defaults filled in. On the empty sample the level is 35.0 and the
  status is \<open>early_bloom\<close>.
\<close>

theorem missing_fields_defaulted:
  "analyze_bloom s = analyze_bloom (with_defaults s)
   \<and> {''ndvi'', ''evi'', ''temperature'', ''precipitation''} \<subseteq> dom (with_defaults s)
   \<and> with_defaults Map.empty
        = [''ndvi'' \<mapsto> 0, ''evi'' \<mapsto> 0, ''temperature'' \<mapsto> 20, ''precipitation'' \<mapsto> 0]
   \<and> ba_level (analyze_bloom Map.empty) = 35.0
   \<and> ba_status (analyze_bloom Map.empty) = ''early_bloom''"
proof -
  have g: "dict_get (with_defaults s) ''ndvi'' 0 = dict_get s ''ndvi'' 0"
    "dict_get (with_defaults s) ''evi'' 0 = dict_get s ''evi'' 0"
    "dict_get (with_defaults s) ''temperature'' 20 = dict_get s ''temperature'' 20"
    "dict_get (with_defaults s) ''precipitation'' 0 = dict_get s ''precipitation'' 0"
    by (simp_all add: dict_get_def with_defaults_def map_add_def split: option.split)
  have a: "analyze_bloom s = analyze_bloom (with_defaults s)"
    unfolding analyze_bloom_def g ..
  have b: "{''ndvi'', ''evi'', ''temperature'', ''precipitation''} \<subseteq> dom (with_defaults s)"
    by (simp add: with_defaults_def)
  have c: "with_defaults Map.empty
        = [''ndvi'' \<mapsto> 0, ''evi'' \<mapsto> 0, ''temperature'' \<mapsto> 20, ''precipitation'' \<mapsto> 0]"
    by (simp add: with_defaults_def)
  have l: "ba_level (analyze_bloom Map.empty) = 35"
    by (simp add: level_of_sample dict_get_def py_round_def round_half_even_def Let_def)
  have st: "ba_status (analyze_bloom Map.empty) = ''early_bloom''"
    unfolding ba_status_eq l by (simp add: bloom_band_def)
  show ?thesis using a b c l st by simp
qed

theorem missing_fields_defaulted_witness:
  "analyze_bloom [''ndvi'' \<mapsto> 0.5]
     = analyze_bloom [''ndvi'' \<mapsto> 0.5, ''evi'' \<mapsto> 0, ''temperature'' \<mapsto> 20, ''precipitation'' \<mapsto> 0]
   \<and> ba_level (analyze_bloom [''ndvi'' \<mapsto> 0.5]) = 45"
proof -
  have w: "with_defaults [''ndvi'' \<mapsto> 0.5]
           = [''ndvi'' \<mapsto> 0.5, ''evi'' \<mapsto> 0, ''temperature'' \<mapsto> 20, ''precipitation'' \<mapsto> 0]"
    by (rule ext) (simp add: with_defaults_def map_add_def)
  have l: "ba_level (analyze_bloom [''ndvi'' \<mapsto> 0.5]) = 45"
    by (simp add: level_of_sample dict_get_def py_round_def round_half_even_def Let_def)
  show ?thesis using missing_fields_defaulted [of "[''ndvi'' \<mapsto> 0.5]"] unfolding w using l by simp
qed

section \<open>The climate source\<close>

lemma ndvi_eq_spec: "calculate_simulated_ndvi temp precip = spec_ndvi temp precip"
  by (simp add: calculate_simulated_ndvi_def spec_ndvi_def clamp_def Let_def)

lemma ndvi_range: "0 \<le> calculate_simulated_ndvi temp precip \<and> calculate_simulated_ndvi temp precip \<le> 0.95"
  by (simp add: calculate_simulated_ndvi_def Let_def)

lemma primary_sample:
  "get_vegetation_index (Lookup_ok (temp # ts) (precip # ps)) u today lat lon date =
     \<lparr>cs_ndvi = py_round (calculate_simulated_ndvi temp precip) 3,
      cs_evi = py_round (derive_evi (calculate_simulated_ndvi temp precip)) 3,
      cs_temperature = temp, cs_precipitation = precip, cs_date = date\<rparr>"
  by (simp add: get_vegetation_index_def Let_def)

lemma py_round_3_le_095: "x \<le> 0.95 \<Longrightarrow> py_round x 3 \<le> 0.95"
  using py_round_le [of x 950 3] by simp

text \<open>
  Claim C4. On the path of a successful lookup the NDVI is the specification's formula
  of temperature and precipitation and lies in \<open>[0, 0.95]\<close>; so does the \<open>ndvi\<close> of the
  sample, which is that value rounded to 3 decimals. The sample depends on nothing
  else: not on the random draws, the position or the clock.
\<close>

theorem ndvi_formula_and_range:
  "calculate_simulated_ndvi temp precip = spec_ndvi temp precip
   \<and> 0 \<le> calculate_simulated_ndvi temp precip
   \<and> calculate_simulated_ndvi temp precip \<le> 0.95
   \<and> cs_ndvi (get_vegetation_index (Lookup_ok (temp # ts) (precip # ps)) u today lat lon date)
       = py_round (spec_ndvi temp precip) 3
   \<and> 0 \<le> cs_ndvi (get_vegetation_index (Lookup_ok (temp # ts) (precip # ps)) u today lat lon date)
   \<and> cs_ndvi (get_vegetation_index (Lookup_ok (temp # ts) (precip # ps)) u today lat lon date) \<le> 0.95
   \<and> get_vegetation_index (Lookup_ok (temp # ts) (precip # ps)) u today lat lon date
       = get_vegetation_index (Lookup_ok (temp # ts) (precip # ps)) u' today' lat' lon' date"
proof -
  let ?n = "calculate_simulated_ndvi temp precip"
  have r: "0 \<le> ?n" "?n \<le> 0.95" using ndvi_range [of temp precip] by simp_all
  have c: "cs_ndvi (get_vegetation_index (Lookup_ok (temp # ts) (precip # ps)) u today lat lon date)
             = py_round ?n 3"
    by (simp add: primary_sample)
  have lo: "0 \<le> py_round ?n 3" using r(1) by (rule py_round_nonneg)
  have hi: "py_round ?n 3 \<le> 0.95" using r(2) by (rule py_round_3_le_095)
  have indep: "get_vegetation_index (Lookup_ok (temp # ts) (precip # ps)) u today lat lon date
       = get_vegetation_index (Lookup_ok (temp # ts) (precip # ps)) u' today' lat' lon' date"
    by (simp add: primary_sample)
  show ?thesis unfolding c using ndvi_eq_spec [of temp precip] r lo hi indep by simp
qed

theorem ndvi_formula_and_range_witness:
  "calculate_simulated_ndvi 26 12 = 0.792
   \<and> cs_ndvi (get_vegetation_index (Lookup_ok [26] [12]) \<lparr>u_ndvi = 0.1, u_temp = 0, u_precip = 0\<rparr>
        ''20240101'' 0 0 ''20240101'') = 0.792"
proof -
  have v: "spec_ndvi 26 12 = 0.792"
    by (simp add: spec_ndvi_def clamp_def Let_def)
  have p: "py_round 0.792 3 = 0.792"
    by (simp add: py_round_def round_half_even_def Let_def)
  show ?thesis
    using ndvi_formula_and_range [of 26 12 "[]" "[]" "\<lparr>u_ndvi = 0.1, u_temp = 0, u_precip = 0\<rparr>"
        "''20240101''" 0 0 "''20240101''"]
    unfolding v p by simp
qed

lemma derive_evi_lt_1: "n \<le> 0.95 \<Longrightarrow> derive_evi n \<le> 0.996"
  by (simp add: derive_evi_def)

lemma derive_evi_ge: "0 \<le> n \<Longrightarrow> n \<le> derive_evi n"
  by (simp add: derive_evi_def)

text \<open>
  Claim C5, as stated, fails: it says the formula lets the EVI exceed 1.0 just above
  the boundary 0.83. No temperature and precipitation give an EVI above 1, and no NDVI
  in \<open>[0, 0.95]\<close> does: below the boundary the EVI is \<open>1.2 * ndvi < 0.996\<close>, from the
  boundary on it is the NDVI itself, at most 0.95.
\<close>

theorem evi_exceeds_one_counterexample:
  "\<not> (\<exists>temp precip. 1 < derive_evi (calculate_simulated_ndvi temp precip))
   \<and> \<not> (\<exists>ndvi. 0 \<le> ndvi \<and> ndvi \<le> 0.95 \<and> 1 < derive_evi ndvi)
   \<and> derive_evi 0.8299 = 0.99588 \<and> derive_evi 0.83 = 0.83 \<and> derive_evi 0.84 = 0.84"
proof -
  have a: "derive_evi (calculate_simulated_ndvi temp precip) \<le> 0.996" for temp precip
    using ndvi_range [of temp precip] by (intro derive_evi_lt_1) simp
  have "\<not> 1 < derive_evi (calculate_simulated_ndvi temp precip)" for temp precip
    using a [of temp precip] by simp
  then have A: "\<not> (\<exists>temp precip. 1 < derive_evi (calculate_simulated_ndvi temp precip))" by blast
  have "\<not> (0 \<le> ndvi \<and> ndvi \<le> 0.95 \<and> 1 < derive_evi ndvi)" for ndvi
    using derive_evi_lt_1 [of ndvi] by auto
  then have B: "\<not> (\<exists>ndvi. 0 \<le> ndvi \<and> ndvi \<le> 0.95 \<and> 1 < derive_evi ndvi)" by blast
  have C: "derive_evi 0.8299 = 0.99588" "derive_evi 0.83 = 0.83" "derive_evi 0.84 = 0.84"
    by (simp_all add: derive_evi_def)
  show ?thesis using A B C by blast
qed

text \<open>
  Claim C5, amended. \<open>evi = ndvi * 1.2\<close> when \<open>ndvi < 0.83\<close> and \<open>evi = ndvi\<close> otherwise; on
  the path of a successful lookup \<open>ndvi \<le> evi \<le> 0.996\<close>, so the EVI never exceeds 1.0,
  and the same holds of the two values rounded to 3 decimals that the sample carries.
\<close>

theorem derived_evi_formula_and_bounds:
  "derive_evi ndvi = (if ndvi < 0.83 then ndvi * 1.2 else ndvi)
   \<and> calculate_simulated_ndvi temp precip \<le> derive_evi (calculate_simulated_ndvi temp precip)
   \<and> derive_evi (calculate_simulated_ndvi temp precip) \<le> 0.996
   \<and> cs_evi (get_vegetation_index (Lookup_ok (temp # ts) (precip # ps)) u today lat lon date)
       = py_round (derive_evi (calculate_simulated_ndvi temp precip)) 3
   \<and> cs_ndvi (get_vegetation_index (Lookup_ok (temp # ts) (precip # ps)) u today lat lon date)
       \<le> cs_evi (get_vegetation_index (Lookup_ok (temp # ts) (precip # ps)) u today lat lon date)
   \<and> cs_evi (get_vegetation_index (Lookup_ok (temp # ts) (precip # ps)) u today lat lon date) \<le> 0.996"
proof -
  let ?n = "calculate_simulated_ndvi temp precip"
  have r: "0 \<le> ?n" "?n \<le> 0.95" using ndvi_range [of temp precip] by simp_all
  have f: "derive_evi ndvi = (if ndvi < 0.83 then ndvi * 1.2 else ndvi)" by (simp add: derive_evi_def)
  have ge: "?n \<le> derive_evi ?n" using r(1) by (rule derive_evi_ge)
  have le: "derive_evi ?n \<le> 0.996" using r(2) by (rule derive_evi_lt_1)
  have ce: "cs_evi (get_vegetation_index (Lookup_ok (temp # ts) (precip # ps)) u today lat lon date)
       = py_round (derive_evi ?n) 3"
    by (simp add: primary_sample)
  have cn: "cs_ndvi (get_vegetation_index (Lookup_ok (temp # ts) (precip # ps)) u today lat lon date)
       = py_round ?n 3"
    by (simp add: primary_sample)
  have m: "py_round ?n 3 \<le> py_round (derive_evi ?n) 3" using ge by (rule py_round_mono)
  have h: "py_round (derive_evi ?n) 3 \<le> 0.996"
    using le py_round_le [of "derive_evi ?n" 996 3] by simp
  show ?thesis unfolding ce cn using f ge le m h by blast
qed


theorem derived_evi_formula_and_bounds_witness:
  "derive_evi (calculate_simulated_ndvi 26 12) = 0.9504
   \<and> cs_ndvi (get_vegetation_index (Lookup_ok [26] [12]) \<lparr>u_ndvi = 0.1, u_temp = 0, u_precip = 0\<rparr>
        ''20240101'' 0 0 ''20240101'') = 0.792
   \<and> cs_evi (get_vegetation_index (Lookup_ok [26] [12]) \<lparr>u_ndvi = 0.1, u_temp = 0, u_precip = 0\<rparr>
        ''20240101'' 0 0 ''20240101'') = 0.95
   \<and> derive_evi (calculate_simulated_ndvi 20 12) = 0.9"
proof -
  have n1: "calculate_simulated_ndvi 26 12 = 0.792"
    by (simp add: calculate_simulated_ndvi_def Let_def)
  have n2: "calculate_simulated_ndvi 20 12 = 0.9"
    by (simp add: calculate_simulated_ndvi_def Let_def)
  have p1: "py_round 0.9504 3 = 0.95"
    by (simp add: py_round_def round_half_even_def Let_def)
  have p2: "py_round 0.792 3 = 0.792"
    by (simp add: py_round_def round_half_even_def Let_def)
  have c: "cs_ndvi (get_vegetation_index (Lookup_ok [26] [12]) \<lparr>u_ndvi = 0.1, u_temp = 0, u_precip = 0\<rparr>
        ''20240101'' 0 0 ''20240101'') = 0.792"
    by (simp add: primary_sample n1 py_round_def round_half_even_def Let_def)
  have e1: "derive_evi 0.792 = 0.9504"
    using derived_evi_formula_and_bounds [where ndvi = "0.792"] by simp
  have e2: "derive_evi 0.9 = 0.9"
    using derived_evi_formula_and_bounds [where ndvi = "0.9"] by simp
  show ?thesis
    using derived_evi_formula_and_bounds [of 0 26 12 "[]" "[]" "\<lparr>u_ndvi = 0.1, u_temp = 0, u_precip = 0\<rparr>"
        "''20240101''" 0 0 "''20240101''"]
    unfolding n1 n2 e1 e2 p1 using c by simp
qed

lemma fallback_ndvi:
  "cs_ndvi (get_fallback_data u today lat lon) = py_round (0.4 + u_ndvi u * (1 - \<bar>lat\<bar> / 90)) 3"
  by (simp add: get_fallback_data_def Let_def)

text \<open>
  Claim C6. For every draw \<open>u_ndvi\<close> of \<open>uniform(0, 0.3)\<close> the fallback sample's \<open>ndvi\<close>
  is \<open>0.4 + u_ndvi * (1 - |lat|/90)\<close> rounded to 3 decimals; at latitude 0 it lies in
  \<open>[0.4, 0.7]\<close>, at latitude 90 and -90 it is 0.4. \<open>_get_fallback_data\<close> has no failing
  branch: it is a total function of the draws, the clock and the position, and a failed
  lookup returns its sample.
\<close>

theorem fallback_ndvi_range:
  assumes "0 \<le> u_ndvi u" and "u_ndvi u \<le> 0.3"
  shows "cs_ndvi (get_fallback_data u today lat lon) = py_round (0.4 + u_ndvi u * (1 - \<bar>lat\<bar> / 90)) 3
   \<and> 0.4 \<le> cs_ndvi (get_fallback_data u today 0 lon)
   \<and> cs_ndvi (get_fallback_data u today 0 lon) \<le> 0.7
   \<and> cs_ndvi (get_fallback_data u today 90 lon) = 0.4
   \<and> cs_ndvi (get_fallback_data u today (- 90) lon) = 0.4
   \<and> get_vegetation_index Lookup_failed u today lat lon date = get_fallback_data u today lat lon"
proof -
  have z: "cs_ndvi (get_fallback_data u today 0 lon) = py_round (0.4 + u_ndvi u) 3"
    by (simp add: fallback_ndvi)
  have lo: "0.4 \<le> py_round (0.4 + u_ndvi u) 3"
    using assms(1) py_round_ge [of 400 3 "0.4 + u_ndvi u"] by simp
  have hi: "py_round (0.4 + u_ndvi u) 3 \<le> 0.7"
    using assms(2) py_round_le [of "0.4 + u_ndvi u" 700 3] by simp
  have n: "cs_ndvi (get_fallback_data u today 90 lon) = 0.4"
    by (simp add: fallback_ndvi py_round_def round_half_even_def Let_def)
  have s: "cs_ndvi (get_fallback_data u today (- 90) lon) = 0.4"
    by (simp add: fallback_ndvi py_round_def round_half_even_def Let_def)
  have f: "get_vegetation_index Lookup_failed u today lat lon date = get_fallback_data u today lat lon"
    by (simp add: get_vegetation_index_def)
  show ?thesis unfolding z using fallback_ndvi [of u today lat lon] lo hi n s f by blast
qed

theorem fallback_ndvi_range_witness:
  "(0::real) \<le> 0.1234567 \<and> (0.1234567::real) \<le> 0.3
   \<and> cs_ndvi (get_fallback_data \<lparr>u_ndvi = 0.1234567, u_temp = 3, u_precip = 7\<rparr> ''20240101'' 0 10) = 0.523
   \<and> cs_ndvi (get_fallback_data \<lparr>u_ndvi = 0.1234567, u_temp = 3, u_precip = 7\<rparr> ''20240101'' 90 10) = 0.4
   \<and> cs_ndvi (get_fallback_data \<lparr>u_ndvi = 0.1234567, u_temp = 3, u_precip = 7\<rparr> ''20240101'' (- 90) 10) = 0.4"
proof -
  let ?u = "\<lparr>u_ndvi = 0.1234567, u_temp = 3, u_precip = 7\<rparr>"
  have h: "0 \<le> u_ndvi ?u" "u_ndvi ?u \<le> 0.3" by simp_all
  have v: "py_round (0.4 + u_ndvi ?u * (1 - \<bar>0\<bar> / 90)) 3 = 0.523"
    by (simp add: py_round_def round_half_even_def Let_def)
  show ?thesis
    using fallback_ndvi_range [OF h, of "''20240101''" 0 10 "''20240101''"] unfolding v by simp
qed

section \<open>The species classifier\<close>

text \<open>
  Claim C9. At latitude 0 with \<open>ndvi = 0.8\<close>, temperature 26 and precipitation 12 (and
  any \<open>evi\<close>) the ecosystem type is \<open>Tropical\<close> and the species hints are the
  dense-rainforest hint followed by the tropical-flower hint.
\<close>

theorem tropical_sample_classified:
  assumes "satellite_data ''ndvi'' = Some 0.8" and "satellite_data ''temperature'' = Some 26"
    and "satellite_data ''precipitation'' = Some 12" and "location ''lat'' = Some 0"
  shows "si_ecosystem_type (identify_species_type satellite_data location) = ''Tropical''
   \<and> si_species_hints (identify_species_type satellite_data location)
       = [''Selva tropical densa'',
          ''Flores tropicales: Orqu'' @ i_acute @ ''deas, Heliconias, Jengibre'']"
proof -
  have g: "dict_get satellite_data ''ndvi'' 0 = 0.8" "dict_get satellite_data ''temperature'' 20 = 26"
    "dict_get satellite_data ''precipitation'' 0 = 12" "dict_get location ''lat'' 0 = 0"
    using assms by (simp_all add: dict_get_def)
  have z: "climate_zone_rules 0 0.8 26 12 ([], []) =
     (''Tropical'', [''Selva tropical densa'',
          ''Flores tropicales: Orqu'' @ i_acute @ ''deas, Heliconias, Jengibre''],
        [''Alta biodiversidad esperada'',
         ''Per'' @ i_acute @ ''odo '' @ o_acute @ ''ptimo para polinizadores''])"
    by (simp add: climate_zone_rules_def add_hint_def add_note_def Let_def)
  have a: "agricultural_rule 0.8 e 26 acc = acc" for e acc
    by (simp add: agricultural_rule_def)
  have i: "invasive_rule 0.8 26 acc = acc" for acc
    by (simp add: invasive_rule_def)
  have d: "degradation_rule 0.8 acc = acc" for acc
    by (simp add: degradation_rule_def)
  show ?thesis
    unfolding identify_species_type_def g Let_def z a i d by simp
qed

theorem tropical_sample_classified_witness:
  "si_ecosystem_type (identify_species_type
       [''ndvi'' \<mapsto> 0.8, ''temperature'' \<mapsto> 26, ''precipitation'' \<mapsto> 12] [''lat'' \<mapsto> 0]) = ''Tropical''
   \<and> si_species_hints (identify_species_type
       [''ndvi'' \<mapsto> 0.8, ''temperature'' \<mapsto> 26, ''precipitation'' \<mapsto> 12] [''lat'' \<mapsto> 0])
       = [''Selva tropical densa'',
          ''Flores tropicales: Orqu'' @ i_acute @ ''deas, Heliconias, Jengibre'']"
  by (rule tropical_sample_classified) simp_all

section \<open>The predictor\<close>

lemma bloom_dates_loop_eq: "bloom_dates_loop h = transition_dates h"
proof (induction h rule: bloom_dates_loop.induct)
  case (1 c n rest)
  then show ?case
    by (simp add: transition_dates_def is_transition_def bloom_threshold_ndvi_def
        growth_rate_threshold_def)
qed (simp_all add: transition_dates_def)











lemmas calendar_eval = ymd2ord_def days_before_year_def days_before_month_def
  DAYS_BEFORE_MONTH_def DAYS_IN_MONTH_def days_in_month_def is_leap_def

lemmas parse_eval = strptime_def match_Ymd_def match_m_def match_d_def char_in_def digit_val_def


text \<open>
  Claim C7, as stated, fails: the sentinel's \<open>date\<close> is the text \<open>Datos insuficientes\<close>, not
  \<open>insufficient data\<close>.
\<close>

theorem insufficient_data_text_counterexample:
  "predict_bloom_date [] =
     Inr \<lparr>p_date = ''Datos insuficientes'', p_probability = 0, p_peak_period = ''N/A'',
          p_historical_blooms = None\<rparr>
   \<and> predict_bloom_date [] \<noteq>
     Inr \<lparr>p_date = ''insufficient data'', p_probability = 0, p_peak_period = ''N/A'',
          p_historical_blooms = None\<rparr>"
  by (simp add: predict_bloom_date_def)

text \<open>
  Claim C7, amended. For every series shorter than 14 entries, the empty one included
  and whatever the entries hold, \<open>predict_bloom_date\<close> returns the sentinel with \<open>date\<close>
  \<open>Datos insuficientes\<close>, \<open>probability\<close> 0 and \<open>peak_period\<close> \<open>N/A\<close>, and raises nothing. The
  witness is a series of 13 entries with dates that do not parse; with a fourteenth
  entry the same series raises \<open>ValueError\<close>.
\<close>

theorem short_series_sentinel:
  assumes "length h < 14"
  shows "predict_bloom_date h =
     Inr \<lparr>p_date = ''Datos insuficientes'', p_probability = 0, p_peak_period = ''N/A'',
          p_historical_blooms = None\<rparr>"
  using assms by (simp add: predict_bloom_date_def)

theorem short_series_sentinel_witness:
  "length series_too_short < 14
   \<and> predict_bloom_date series_too_short =
     Inr \<lparr>p_date = ''Datos insuficientes'', p_probability = 0, p_peak_period = ''N/A'',
          p_historical_blooms = None\<rparr>
   \<and> predict_bloom_date series_malformed_dates = Inl ValueError"
proof -
  have l: "length series_too_short < 14" by (simp add: series_too_short_def)
  have t: "transition_dates series_malformed_dates = [''20240101'', ''not a date'', ''20240122'']"
    by (simp add: transition_dates_def is_transition_def series_malformed_dates_def mk_series_def)
  have c: "calculate_average_interval [''20240101'', ''not a date'', ''20240122''] = Inl ValueError"
    by (simp add: calculate_average_interval_def parse_eval calendar_eval)
  have n: "\<not> length series_malformed_dates < 14"
    by (simp add: series_malformed_dates_def mk_series_def)
  have e: "predict_bloom_date series_malformed_dates = Inl ValueError"
    by (simp add: predict_bloom_date_def bloom_dates_loop_eq t c n Let_def)
  show ?thesis using l short_series_sentinel [OF l] e by blast
qed




end
